theory Spec2Isabelle
  imports Complex_Main "HOL-Library.AList" "HOL-Library.Sublist"
begin

section \<open>The HTTP transport router of the MCP server\<close>

text \<open>
  The development embeds the transport module of the repository (\<open>start\<close>,
  \<open>startStdioTransport\<close>, \<open>handleSSE\<close>, \<open>handleHealth\<close>, \<open>handleStreamable\<close> and the
  request listener installed by \<open>startHttpTransport\<close>).

  The two session registries are JavaScript \<open>Map\<close>s: association lists in insertion order,
  \<open>Map.get\<close> is \<open>map_of\<close>, \<open>Map.set\<close> is \<open>AList.update\<close> (replace in place or append),
  \<open>Map.delete\<close> is \<open>AList.delete\<close> and \<open>Map.size\<close> is the length of the list.
  Transport objects live in a store indexed by an address (\<open>tid\<close>); the registries hold
  addresses, so the aliasing between a registry entry and the closure that captured the
  transport is kept.

  Every handler is an asynchronous function. It is modelled by the list of effects it
  performs, in program order, and by its outcome (the promise resolves or rejects). The state
  after a handler is the fold of its effects over the state before it. What the collaborators
  outside the module decide during a request (the URL constructor, the identifier generator,
  whether \<open>mcpServer.connect\<close> resolves, whether a fresh streamable transport sees an
  initialization request, the process data read by the health handler) is an input of the
  model. Calls of \<open>debug\<close> loggers and the startup banner are left out.
\<close>

subsection \<open>Data\<close>

type_synonym tid = nat

record request =
  req_method :: string
  req_url :: string
  req_headers :: "(string \<times> string) list"

text \<open>The two members of a \<open>URL\<close> object that the module reads.\<close>

record url =
  pathname :: string
  searchParams :: "(string \<times> string) list"

text \<open>\<open>url.searchParams.get(name)\<close>: the first value of that name, or \<open>null\<close>.\<close>

definition searchParams_get :: "url \<Rightarrow> string \<Rightarrow> string option" where
  "searchParams_get u name = map_of (searchParams u) name"

text \<open>\<open>req.headers[name]\<close>: the value, or \<open>undefined\<close>.\<close>

definition header :: "request \<Rightarrow> string \<Rightarrow> string option" where
  "header req name = map_of (req_headers req) name"

text \<open>
  JavaScript truthiness of a \<open>string | undefined | null\<close> value: \<open>undefined\<close>, \<open>null\<close> and
  the empty string are falsy.
\<close>

fun truthy :: "string option \<Rightarrow> bool" where
  "truthy None = False"
| "truthy (Some v) = (v \<noteq> [])"

datatype generator = Fixed string | RandomUUID

datatype oninit = ConnectOnly | ConnectThenRegister

record sse_transport =
  sse_sessionId :: string

record streamable_transport =
  st_generator :: generator
  st_oninit :: oninit
  st_sessionId :: "string option"
  st_initialized :: bool
  st_onclose :: bool

datatype transport_ref = SSERef tid | StreamableRef tid | StdioRef

record session_counts =
  sse :: nat
  streamable :: nat
  total :: nat

record health_data =
  status :: string
  timestamp :: string
  version :: string
  uptime :: real
  sessions :: session_counts
  memory :: "(string \<times> nat) list"
  pid :: nat

datatype body = Text string | Json health_data

text \<open>What the process reports when the health handler asks.\<close>

record process_info =
  now_iso :: string
  npm_package_version :: "string option"
  proc_uptime :: real
  memoryUsage :: "(string \<times> nat) list"
  proc_pid :: nat

text \<open>
  What the collaborators decide during one request: \<open>ext_uuid\<close> is the identifier produced
  by the generator of the SDK (\<open>crypto.randomUUID()\<close>, also inside the constructor of
  \<open>SSEServerTransport\<close>), \<open>ext_connect\<close> tells whether \<open>mcpServer.connect\<close> resolves,
  \<open>ext_initialize\<close> whether \<open>handleRequest\<close> of a transport that is not initialized yet
  accepts the request as an initialization request, \<open>ext_post\<close> whether
  \<open>handlePostMessage\<close> of a legacy transport resolves (it rejects when the transport has no
  live stream), and \<open>ext_closes\<close> whether \<open>handleRequest\<close> of a streamable transport
  accepts a DELETE, on which it closes the transport before it returns.
\<close>

record ext =
  ext_uuid :: string
  ext_connect :: bool
  ext_initialize :: bool
  ext_post :: bool
  ext_closes :: bool
  ext_process :: process_info

datatype error = InvalidURL | ConnectFailed | PostMessageFailed

datatype outcome = Returned | Rejected error

datatype effect =
    NewSSETransport tid string
  | NewStreamableTransport tid generator oninit
  | SseSet string tid
  | SseDelete string
  | StreamableSet string tid
  | StreamableDelete string
  | Connect transport_ref bool
  | OnResClose tid
  | SetOnclose tid
  | SetSessionId tid string
  | SetInitialized tid
  | HandlePostMessage tid
  | HandleRequest tid
  | Status nat
  | SetHeader string string
  | End body
  | StartHttpServer "string option" nat

record state =
  sseSessions :: "(string \<times> tid) list"
  streamableSessions :: "(string \<times> tid) list"
  sse_objs :: "tid \<rightharpoonup> sse_transport"
  streamable_objs :: "tid \<rightharpoonup> streamable_transport"
  close_listeners :: "tid set"
  next_tid :: tid

text \<open>\<open>startHttpTransport\<close> creates both registries empty.\<close>

definition init_state :: state where
  "init_state = \<lparr>sseSessions = [], streamableSessions = [], sse_objs = Map.empty,
     streamable_objs = Map.empty, close_listeners = {}, next_tid = 0\<rparr>"

subsection \<open>The meaning of an effect\<close>

definition upd_streamable ::
  "tid \<Rightarrow> (streamable_transport \<Rightarrow> streamable_transport) \<Rightarrow> state \<Rightarrow> state" where
  "upd_streamable t f s =
     (case streamable_objs s t of
        None \<Rightarrow> s
      | Some obj \<Rightarrow> s\<lparr>streamable_objs := (streamable_objs s)(t \<mapsto> f obj)\<rparr>)"

text \<open>
  Responses and the protocol-engine connect leave the registries and the fields of the
  transports that this module reads as they are. \<open>HandlePostMessage\<close> and \<open>HandleRequest\<close>
  mark the call of the SDK method; what the call makes this module do (a callback, the
  close handler) follows it in the list of effects of the handler.
\<close>

fun apply_effect :: "effect \<Rightarrow> state \<Rightarrow> state" where
  "apply_effect (NewSSETransport t sid) s =
     s\<lparr>sse_objs := (sse_objs s)(t \<mapsto> \<lparr>sse_sessionId = sid\<rparr>), next_tid := Suc (next_tid s)\<rparr>"
| "apply_effect (NewStreamableTransport t g c) s =
     s\<lparr>streamable_objs := (streamable_objs s)(t \<mapsto>
          \<lparr>st_generator = g, st_oninit = c, st_sessionId = None, st_initialized = False,
           st_onclose = False\<rparr>),
       next_tid := Suc (next_tid s)\<rparr>"
| "apply_effect (SseSet sid t) s = s\<lparr>sseSessions := AList.update sid t (sseSessions s)\<rparr>"
| "apply_effect (SseDelete sid) s = s\<lparr>sseSessions := AList.delete sid (sseSessions s)\<rparr>"
| "apply_effect (StreamableSet sid t) s =
     s\<lparr>streamableSessions := AList.update sid t (streamableSessions s)\<rparr>"
| "apply_effect (StreamableDelete sid) s =
     s\<lparr>streamableSessions := AList.delete sid (streamableSessions s)\<rparr>"
| "apply_effect (OnResClose t) s = s\<lparr>close_listeners := insert t (close_listeners s)\<rparr>"
| "apply_effect (SetOnclose t) s = upd_streamable t (\<lambda>obj. obj\<lparr>st_onclose := True\<rparr>) s"
| "apply_effect (SetSessionId t sid) s =
     upd_streamable t (\<lambda>obj. obj\<lparr>st_sessionId := Some sid\<rparr>) s"
| "apply_effect (SetInitialized t) s =
     upd_streamable t (\<lambda>obj. obj\<lparr>st_initialized := True\<rparr>) s"
| "apply_effect (Connect r b) s = s"
| "apply_effect (HandlePostMessage t) s = s"
| "apply_effect (HandleRequest t) s = s"
| "apply_effect (Status n) s = s"
| "apply_effect (SetHeader k v) s = s"
| "apply_effect (End b) s = s"
| "apply_effect (StartHttpServer h p) s = s"

definition run_effects :: "effect list \<Rightarrow> state \<Rightarrow> state" where
  "run_effects effs s = fold apply_effect effs s"

text \<open>
  The response written by a handler itself: the last status code assigned (200 when none
  is), the headers set, and the body passed to \<open>res.end\<close>; \<open>None\<close> when the handler does
  not end the response (a transport of the SDK does, or nobody).
\<close>

record response =
  statusCode :: nat
  headers :: "(string \<times> string) list"
  ended :: "body option"

fun write_response :: "effect \<Rightarrow> response \<Rightarrow> response" where
  "write_response (Status n) r = r\<lparr>statusCode := n\<rparr>"
| "write_response (SetHeader k v) r = r\<lparr>headers := headers r @ [(k, v)]\<rparr>"
| "write_response (End b) r = r\<lparr>ended := Some b\<rparr>"
| "write_response _ r = r"

definition response_of :: "effect list \<Rightarrow> response" where
  "response_of effs = fold write_response effs \<lparr>statusCode = 200, headers = [], ended = None\<rparr>"

subsection \<open>Awaiting\<close>

type_synonym run = "effect list \<times> outcome"

text \<open>
  \<open>await a; b\<close>: the effects of \<open>a\<close>, then those of \<open>b\<close> when \<open>a\<close> resolves; a rejection
  of \<open>a\<close> leaves the function at once, since the module has no \<open>try\<close> around any await.
\<close>

definition await_then :: "run \<Rightarrow> run \<Rightarrow> run" where
  "await_then a b =
     (case snd a of Returned \<Rightarrow> (fst a @ fst b, snd b) | Rejected e \<Rightarrow> (fst a, Rejected e))"

text \<open>
  \<open>await mcpServer.connect(serverBackendFactory, transport, stateless)\<close>. The function is
  defined in \<open>server.js\<close>, outside the module: whether it resolves is the input \<open>ok\<close>.
\<close>

definition mcp_connect :: "bool \<Rightarrow> transport_ref \<Rightarrow> bool \<Rightarrow> run" where
  "mcp_connect ok r stateless =
     ([Connect r stateless], if ok then Returned else Rejected ConnectFailed)"

subsection \<open>Start\<close>

record options =
  host :: "string option"
  port :: "nat option"

definition startStdioTransport :: "bool \<Rightarrow> run" where
  "startStdioTransport ok = mcp_connect ok StdioRef False"

text \<open>
  With a port, \<open>start\<close> opens the HTTP server and \<open>startHttpTransport\<close> installs the request
  listener \<open>onRequest\<close> below on it; nothing is connected until a request arrives.
\<close>

definition start :: "bool \<Rightarrow> options \<Rightarrow> run" where
  "start ok opts =
     (case port opts of
        Some p \<Rightarrow> ([StartHttpServer (host opts) p], Returned)
      | None \<Rightarrow> startStdioTransport ok)"

subsection \<open>The legacy stream adapter\<close>

definition handleSSE :: "ext \<Rightarrow> request \<Rightarrow> url \<Rightarrow> state \<Rightarrow> run" where
  "handleSSE x req u s =
     (if req_method req = ''POST'' then
        (let sessionId = searchParams_get u ''sessionId'' in
         if \<not> truthy sessionId then ([Status 400, End (Text ''Missing sessionId'')], Returned)
         else
           (case map_of (sseSessions s) (the sessionId) of
              None \<Rightarrow> ([Status 404, End (Text ''Session not found'')], Returned)
            | Some transport \<Rightarrow>
                ([HandlePostMessage transport],
                 if ext_post x then Returned else Rejected PostMessageFailed)))
      else if req_method req = ''GET'' then
        (let transport = next_tid s; sessionId = ext_uuid x in
         await_then
           (await_then
              ([NewSSETransport transport sessionId, SseSet sessionId transport], Returned)
              (mcp_connect (ext_connect x) (SSERef transport) False))
           ([OnResClose transport], Returned))
      else ([Status 405, End (Text ''Method not allowed'')], Returned))"

text \<open>
  The listener that \<open>handleSSE\<close> puts on the \<open>close\<close> event of the response of a GET:
  \<open>sessions.delete(transport.sessionId)\<close>.
\<close>

definition sse_close_listener :: "tid \<Rightarrow> state \<Rightarrow> effect list" where
  "sse_close_listener t s =
     (case sse_objs s t of None \<Rightarrow> [] | Some obj \<Rightarrow> [SseDelete (sse_sessionId obj)])"

subsection \<open>The health reporter\<close>

definition healthData :: "process_info \<Rightarrow> state \<Rightarrow> health_data" where
  "healthData p s =
     \<lparr>status = ''ok'',
      timestamp = now_iso p,
      version = (if truthy (npm_package_version p) then the (npm_package_version p)
                 else ''unknown''),
      uptime = proc_uptime p,
      sessions = \<lparr>sse = length (sseSessions s),
                  streamable = length (streamableSessions s),
                  total = length (sseSessions s) + length (streamableSessions s)\<rparr>,
      memory = memoryUsage p,
      pid = proc_pid p\<rparr>"

text \<open>The body is \<open>JSON.stringify(healthData, null, 2)\<close>; the model keeps the object.\<close>

definition handleHealth :: "ext \<Rightarrow> request \<Rightarrow> state \<Rightarrow> run" where
  "handleHealth x req s =
     (if req_method req \<noteq> ''GET'' then
        ([Status 405, SetHeader ''Allow'' ''GET'', End (Text ''Method not allowed'')], Returned)
      else
        ([Status 200, SetHeader ''Content-Type'' ''application/json'',
          End (Json (healthData (ext_process x) s))], Returned))"

subsection \<open>The streamable adapter\<close>

text \<open>
  On the header path the module tests \<open>_onsessioninitialized\<close> of the transport before it
  calls it; the constructor has just been given the callback, so the test holds and the
  call is always made.
\<close>

text \<open>
  The two \<open>onsessioninitialized\<close> callbacks: the one given to a transport made for a known
  header value only connects, the one given to a transport made for a POST without header
  connects and then registers the transport under the identifier it is called with.
\<close>

definition onsessioninitialized :: "ext \<Rightarrow> oninit \<Rightarrow> tid \<Rightarrow> string \<Rightarrow> run" where
  "onsessioninitialized x c transport sessionId =
     (case c of
        ConnectOnly \<Rightarrow> mcp_connect (ext_connect x) (StreamableRef transport) True
      | ConnectThenRegister \<Rightarrow>
          await_then (mcp_connect (ext_connect x) (StreamableRef transport) True)
            ([StreamableSet sessionId transport], Returned))"

text \<open>
  \<open>transport.handleRequest(req, res)\<close> of a transport that has just been constructed and
  is not initialized; the request is a POST. The method belongs to the SDK: when the
  request is an initialization request (\<open>ext_initialize\<close>), it takes the identifier from the
  generator, stores it in \<open>sessionId\<close>, sets \<open>_initialized\<close> and awaits the callback. It
  catches a rejection of the callback, answers the request itself and resolves.
\<close>

definition handleRequest_fresh :: "ext \<Rightarrow> tid \<Rightarrow> generator \<Rightarrow> oninit \<Rightarrow> run" where
  "handleRequest_fresh x transport g c =
     (if ext_initialize x then
        (let sessionId = (case g of Fixed v \<Rightarrow> v | RandomUUID \<Rightarrow> ext_uuid x) in
         (fst (await_then
                 ([HandleRequest transport, SetSessionId transport sessionId,
                   SetInitialized transport], Returned)
                 (onsessioninitialized x c transport sessionId)),
          Returned))
      else ([HandleRequest transport], Returned))"

text \<open>
  The \<open>onclose\<close> handler that both creation paths assign to the transport: nothing when the
  transport has no (truthy) session id, \<open>sessions.delete(transport.sessionId)\<close> otherwise.
\<close>

definition onclose :: "tid \<Rightarrow> state \<Rightarrow> effect list" where
  "onclose t s =
     (case streamable_objs s t of
        None \<Rightarrow> []
      | Some obj \<Rightarrow>
          if \<not> truthy (st_sessionId obj) then []
          else [StreamableDelete (the (st_sessionId obj))])"

text \<open>The streamable transport \<open>t\<close> closes: the SDK calls its \<open>onclose\<close> when it has one.\<close>

definition transport_close :: "tid \<Rightarrow> state \<Rightarrow> effect list" where
  "transport_close t s =
     (case streamable_objs s t of
        None \<Rightarrow> []
      | Some obj \<Rightarrow> if st_onclose obj then onclose t s else [])"

text \<open>
  \<open>transport.handleRequest(req, res)\<close> of an initialized transport, in the state \<open>s\<close> in
  which it is called. The SDK serves the request; a DELETE that it accepts makes it close
  the transport, and with it run the close handler above, before the call returns.
\<close>

definition sdk_closes :: "ext \<Rightarrow> request \<Rightarrow> bool" where
  "sdk_closes x req \<longleftrightarrow> req_method req = ''DELETE'' \<and> ext_closes x"

definition handleRequest :: "ext \<Rightarrow> request \<Rightarrow> tid \<Rightarrow> state \<Rightarrow> effect list" where
  "handleRequest x req transport s =
     HandleRequest transport # (if sdk_closes x req then transport_close transport s else [])"

definition handleStreamable :: "ext \<Rightarrow> request \<Rightarrow> state \<Rightarrow> run" where
  "handleStreamable x req s =
     (let sessionId = header req ''mcp-session-id'' in
      if truthy sessionId then
        (case map_of (streamableSessions s) (the sessionId) of
           None \<Rightarrow>
             (let localTransport = next_tid s;
                  created =
                    await_then
                      (await_then
                         ([NewStreamableTransport localTransport (Fixed (the sessionId))
                             ConnectOnly,
                           SetOnclose localTransport,
                           SetSessionId localTransport (the sessionId),
                           SetInitialized localTransport], Returned)
                         (onsessioninitialized x ConnectOnly localTransport (the sessionId)))
                      ([StreamableSet (the sessionId) localTransport], Returned)
              in await_then created
                   (handleRequest x req localTransport (run_effects (fst created) s), Returned))
         | Some transport \<Rightarrow> (handleRequest x req transport s, Returned))
      else if req_method req = ''POST'' then
        (let transport = next_tid s in
         await_then
           ([NewStreamableTransport transport RandomUUID ConnectThenRegister,
             SetOnclose transport], Returned)
           (handleRequest_fresh x transport RandomUUID ConnectThenRegister))
      else ([Status 400, End (Text ''Invalid request'')], Returned))"

subsection \<open>The request listener\<close>

text \<open>
  The anonymous listener of \<open>startHttpTransport\<close>. \<open>new URL(...)\<close> is the constructor of
  the platform, the parameter \<open>URL\<close>: \<open>None\<close> when it throws. The constructor is called
  outside any \<open>try\<close>, so the listener rejects when it throws.
\<close>

definition onRequest :: "(string \<Rightarrow> url option) \<Rightarrow> ext \<Rightarrow> request \<Rightarrow> state \<Rightarrow> run" where
  "onRequest URL x req s =
     (case URL (''http://localhost'' @ req_url req) of
        None \<Rightarrow> ([], Rejected InvalidURL)
      | Some u \<Rightarrow>
          if pathname u = ''/health'' then handleHealth x req s
          else if prefix ''/sse'' (pathname u) then handleSSE x req u s
          else handleStreamable x req s)"

subsection \<open>The listener as a state machine\<close>

text \<open>
  What can happen to a running listener: a request arrives (with what the collaborators
  decide while it is handled), the response of the GET that opened the legacy transport
  \<open>t\<close> emits \<open>close\<close>, or the streamable transport \<open>t\<close> closes and the SDK calls its
  \<open>onclose\<close>. In a run (\<open>steps\<close>) each handler comes to its end before the next event;
  the state at an await of a handler is the state after the effects it has performed up
  to there.
\<close>

datatype event = Request request ext | ResClose tid | TransportClose tid

fun event_effects :: "(string \<Rightarrow> url option) \<Rightarrow> state \<Rightarrow> event \<Rightarrow> effect list" where
  "event_effects URL s (Request req x) = fst (onRequest URL x req s)"
| "event_effects URL s (ResClose t) =
     (if t \<in> close_listeners s then sse_close_listener t s else [])"
| "event_effects URL s (TransportClose t) = transport_close t s"

definition step :: "(string \<Rightarrow> url option) \<Rightarrow> state \<Rightarrow> event \<Rightarrow> state" where
  "step URL s e = run_effects (event_effects URL s e) s"

fun steps :: "(string \<Rightarrow> url option) \<Rightarrow> state \<Rightarrow> event list \<Rightarrow> state" where
  "steps URL s [] = s"
| "steps URL s (e # es) = steps URL (step URL s e) es"

text \<open>
  A finite excerpt of the behaviour of the URL constructor, to run the listener on concrete
  requests: each entry is the result of \<open>new URL\<close> on that string (the constructor throws
  on the last one, whose port is not a number). No other input is used below.
\<close>

definition sampleURL :: "string \<Rightarrow> url option" where
  "sampleURL str =
     (if str = ''http://localhost/health'' then Some \<lparr>pathname = ''/health'', searchParams = []\<rparr>
      else if str = ''http://localhost/sse'' then Some \<lparr>pathname = ''/sse'', searchParams = []\<rparr>
      else if str = ''http://localhost/sse?sessionId=S1''
        then Some \<lparr>pathname = ''/sse'', searchParams = [(''sessionId'', ''S1'')]\<rparr>
      else if str = ''http://localhost/sse?sessionId=''
        then Some \<lparr>pathname = ''/sse'', searchParams = [(''sessionId'', [])]\<rparr>
      else if str = ''http://localhost/mcp'' then Some \<lparr>pathname = ''/mcp'', searchParams = []\<rparr>
      else if str = ''http://localhost*:x'' then None
      else None)"

subsection \<open>The routing table of the specification\<close>

text \<open>The routing table in the words of the specification (section 4.1), on the path alone.\<close>

datatype route = HealthReporter | LegacyAdapter | StreamableAdapter

definition spec_route :: "string \<Rightarrow> route" where
  "spec_route path =
     (if path = ''/health'' then HealthReporter
      else if prefix ''/sse'' path then LegacyAdapter
      else StreamableAdapter)"

fun dispatch :: "route \<Rightarrow> ext \<Rightarrow> request \<Rightarrow> url \<Rightarrow> state \<Rightarrow> run" where
  "dispatch HealthReporter x req u s = handleHealth x req s"
| "dispatch LegacyAdapter x req u s = handleSSE x req u s"
| "dispatch StreamableAdapter x req u s = handleStreamable x req s"

subsection \<open>Concrete inputs\<close>

definition sample_process :: process_info where
  "sample_process = \<lparr>now_iso = ''2025-01-01T00:00:00.000Z'', npm_package_version = None,
     proc_uptime = 1, memoryUsage = [(''rss'', 1)], proc_pid = 1\<rparr>"

definition ext_of :: "string \<Rightarrow> bool \<Rightarrow> bool \<Rightarrow> ext" where
  "ext_of uuid connects initializes =
     \<lparr>ext_uuid = uuid, ext_connect = connects, ext_initialize = initializes,
      ext_post = True, ext_closes = True, ext_process = sample_process\<rparr>"

definition ext_sample :: ext where
  "ext_sample = ext_of ''U1'' True True"

definition mcp_get :: request where
  "mcp_get = \<lparr>req_method = ''GET'', req_url = ''/mcp'', req_headers = []\<rparr>"

definition bad_port_get :: request where
  "bad_port_get = \<lparr>req_method = ''GET'', req_url = ''*:x'', req_headers = []\<rparr>"

definition health_get :: request where
  "health_get = \<lparr>req_method = ''GET'', req_url = ''/health'', req_headers = []\<rparr>"

definition sse_get :: request where
  "sse_get = \<lparr>req_method = ''GET'', req_url = ''/sse'', req_headers = []\<rparr>"

definition sse_post_S1 :: request where
  "sse_post_S1 = \<lparr>req_method = ''POST'', req_url = ''/sse?sessionId=S1'', req_headers = []\<rparr>"

definition sse_post_empty :: request where
  "sse_post_empty = \<lparr>req_method = ''POST'', req_url = ''/sse?sessionId='', req_headers = []\<rparr>"

definition mcp_post_S3 :: request where
  "mcp_post_S3 = \<lparr>req_method = ''POST'', req_url = ''/mcp'',
     req_headers = [(''mcp-session-id'', ''S3'')]\<rparr>"

definition mcp_post :: request where
  "mcp_post = \<lparr>req_method = ''POST'', req_url = ''/mcp'', req_headers = []\<rparr>"

definition mcp_get_empty_header :: request where
  "mcp_get_empty_header = \<lparr>req_method = ''GET'', req_url = ''/mcp'',
     req_headers = [(''mcp-session-id'', [])]\<rparr>"

definition mcp_delete_S3 :: request where
  "mcp_delete_S3 = \<lparr>req_method = ''DELETE'', req_url = ''/mcp'',
     req_headers = [(''mcp-session-id'', ''S3'')]\<rparr>"

text \<open>The stream of the legacy transport is gone: \<open>handlePostMessage\<close> rejects.\<close>

definition ext_no_stream :: ext where
  "ext_no_stream = (ext_of ''U1'' True True)\<lparr>ext_post := False\<rparr>"

text \<open>Scenario D of the specification: two legacy sessions and one streamable session open.\<close>

definition scenario_D :: state where
  "scenario_D = steps sampleURL init_state
     [Request sse_get (ext_of ''S1'' True True),
      Request sse_get (ext_of ''S2'' True True),
      Request mcp_post_S3 (ext_of ''U3'' True True)]"

subsection \<open>Runs of the listener\<close>

text \<open>The session ids of all legacy transports constructed so far.\<close>

definition sse_ids :: "state \<Rightarrow> string list" where
  "sse_ids s = concat (map (\<lambda>t. case sse_objs s t of None \<Rightarrow> [] | Some obj \<Rightarrow> [sse_sessionId obj])
     [0..<next_tid s])"

text \<open>
  What is assumed of \<open>crypto.randomUUID\<close>: the identifier is not empty and has not been
  given to a legacy transport before.
\<close>

fun fresh_event :: "state \<Rightarrow> event \<Rightarrow> bool" where
  "fresh_event s (Request req x) = (ext_uuid x \<noteq> [] \<and> ext_uuid x \<notin> set (sse_ids s))"
| "fresh_event s (ResClose t) = True"
| "fresh_event s (TransportClose t) = True"

fun fresh_events :: "(string \<Rightarrow> url option) \<Rightarrow> state \<Rightarrow> event list \<Rightarrow> bool" where
  "fresh_events URL s [] = True"
| "fresh_events URL s (e # es) = (fresh_event s e \<and> fresh_events URL (step URL s e) es)"

text \<open>Addresses are handed out in order: everything in use lies below \<open>next_tid\<close>.\<close>

definition allocated :: "state \<Rightarrow> bool" where
  "allocated s \<longleftrightarrow>
     (\<forall>t. sse_objs s t \<noteq> None \<longrightarrow> t < next_tid s)
     \<and> (\<forall>t. streamable_objs s t \<noteq> None \<longrightarrow> t < next_tid s)
     \<and> (\<forall>t \<in> close_listeners s. t < next_tid s)"

text \<open>
  The legacy session \<open>sid\<close> of transport \<open>t\<close> is registered, no close listener exists for
  it, and no other legacy transport has its identifier.
\<close>

definition leaked :: "string \<Rightarrow> tid \<Rightarrow> state \<Rightarrow> bool" where
  "leaked sid t s \<longleftrightarrow>
     allocated s
     \<and> map_of (sseSessions s) sid = Some t
     \<and> t \<notin> close_listeners s
     \<and> sse_objs s t = Some \<lparr>sse_sessionId = sid\<rparr>
     \<and> (\<forall>t' obj. sse_objs s t' = Some obj \<and> sse_sessionId obj = sid \<longrightarrow> t' = t)"

text \<open>
  Every entry of the streamable registry is a transport that carries the key as its
  session id, a non-empty one, and has the close handler.
\<close>

definition streamable_registered :: "state \<Rightarrow> bool" where
  "streamable_registered s \<longleftrightarrow>
     allocated s
     \<and> (\<forall>sid t. map_of (streamableSessions s) sid = Some t \<longrightarrow>
          (\<exists>obj. streamable_objs s t = Some obj \<and> st_sessionId obj = Some sid
             \<and> st_onclose obj \<and> sid \<noteq> []))"



text \<open>The effects that leave the state as it is.\<close>

fun inert :: "effect \<Rightarrow> bool" where
  "inert (Connect r b) = True"
| "inert (HandlePostMessage t) = True"
| "inert (HandleRequest t) = True"
| "inert (Status n) = True"
| "inert (SetHeader k v) = True"
| "inert (End b) = True"
| "inert (StartHttpServer h p) = True"
| "inert _ = False"

section \<open>Properties\<close>

subsection \<open>Routing\<close>

lemma health_not_sse: "\<not> prefix ''/sse'' ''/health''"
  by simp

lemma sse_prefix_not_health: "prefix ''/sse'' p \<Longrightarrow> p \<noteq> ''/health''"
  by auto

text \<open>
  Claim C1. Whenever the request has a URL path, the listener runs the handler that the
  routing table of the specification names for that path, whatever the method, the headers
  and the registries are: exactly \<open>/health\<close> is the health reporter, exactly the paths that
  start with \<open>/sse\<close> are the legacy adapter, every other path is the streamable adapter,
  \<open>/mcp\<close> among them.
\<close>

theorem router_dispatch:
  assumes "URL (''http://localhost'' @ req_url req) = Some u"
  shows "onRequest URL x req s = dispatch (spec_route (pathname u)) x req u s
    \<and> (spec_route (pathname u) = HealthReporter \<longleftrightarrow> pathname u = ''/health'')
    \<and> (spec_route (pathname u) = LegacyAdapter \<longleftrightarrow> prefix ''/sse'' (pathname u))
    \<and> (spec_route (pathname u) = StreamableAdapter \<longleftrightarrow>
         pathname u \<noteq> ''/health'' \<and> \<not> prefix ''/sse'' (pathname u))
    \<and> spec_route ''/mcp'' = StreamableAdapter"
proof -
  have run: "onRequest URL x req s = dispatch (spec_route (pathname u)) x req u s"
    using assms by (simp add: onRequest_def spec_route_def)
  have legacy: "spec_route (pathname u) = LegacyAdapter \<longleftrightarrow> prefix ''/sse'' (pathname u)"
    using sse_prefix_not_health [of "pathname u"] by (auto simp: spec_route_def)
  have rest: "spec_route (pathname u) = StreamableAdapter \<longleftrightarrow>
      pathname u \<noteq> ''/health'' \<and> \<not> prefix ''/sse'' (pathname u)"
    by (simp add: spec_route_def)
  have health: "spec_route (pathname u) = HealthReporter \<longleftrightarrow> pathname u = ''/health''"
    by (simp add: spec_route_def)
  have mcp: "spec_route ''/mcp'' = StreamableAdapter"
    by (simp add: spec_route_def)
  from run health legacy rest mcp show ?thesis by blast
qed

theorem router_dispatch_witness:
  "sampleURL (''http://localhost'' @ req_url mcp_get) = Some \<lparr>pathname = ''/mcp'', searchParams = []\<rparr>
   \<and> onRequest sampleURL ext_sample mcp_get init_state
       = handleStreamable ext_sample mcp_get init_state"
proof -
  have h: "sampleURL (''http://localhost'' @ req_url mcp_get)
      = Some \<lparr>pathname = ''/mcp'', searchParams = []\<rparr>"
    by (simp add: sampleURL_def mcp_get_def)
  from router_dispatch [of sampleURL mcp_get "\<lparr>pathname = ''/mcp'', searchParams = []\<rparr>" ext_sample init_state] h
  show ?thesis by (simp add: spec_route_def)
qed

text \<open>
  When the URL constructor rejects the request's URL, the listener rejects before it
  dispatches: no handler runs, no response is written, and the registries and transports
  are as before.
\<close>

lemma unparseable_url_rejects:
  assumes "URL (''http://localhost'' @ req_url req) = None"
  shows "onRequest URL x req s = ([], Rejected InvalidURL)
    \<and> step URL s (Request req x) = s"
  using assms by (simp add: onRequest_def step_def run_effects_def)

text \<open>
  Claim C6 at an input where the code departs from it. The request line \<open>GET *:x HTTP/1.1\<close>
  has the target \<open>*:x\<close>, and the constructor rejects \<open>http://localhost*:x\<close>, whose port is
  not a number. The listener does not do what the streamable adapter does with this
  request (answer a GET without session header by 400): it rejects, and nothing answers.
\<close>

theorem unparseable_url_not_routed:
  "sampleURL (''http://localhost'' @ req_url bad_port_get) = None
   \<and> onRequest sampleURL ext_sample bad_port_get init_state = ([], Rejected InvalidURL)
   \<and> ended (response_of (fst (onRequest sampleURL ext_sample bad_port_get init_state))) = None
   \<and> handleStreamable ext_sample bad_port_get init_state
       = ([Status 400, End (Text ''Invalid request'')], Returned)
   \<and> onRequest sampleURL ext_sample bad_port_get init_state
       \<noteq> handleStreamable ext_sample bad_port_get init_state"
  by (simp add: sampleURL_def bad_port_get_def onRequest_def handleStreamable_def header_def
      response_of_def)

subsection \<open>Evaluation\<close>

lemmas run_defs = await_then_def mcp_connect_def onsessioninitialized_def
  handleRequest_fresh_def handleRequest_def sdk_closes_def Let_def header_def
  searchParams_get_def

lemmas handler_defs = handleSSE_def handleHealth_def handleStreamable_def onRequest_def

lemmas machine_defs = step_def run_effects_def response_of_def upd_streamable_def
  sse_close_listener_def onclose_def transport_close_def

lemmas sample_defs = sampleURL_def init_state_def ext_of_def ext_sample_def sample_process_def
  mcp_get_def bad_port_get_def health_get_def sse_get_def sse_post_S1_def sse_post_empty_def
  mcp_post_S3_def mcp_post_def mcp_get_empty_header_def mcp_delete_S3_def ext_no_stream_def

lemma transport_close_deletes:
  "a \<in> set (transport_close t s) \<Longrightarrow> \<exists>sid. a = StreamableDelete sid"
  by (auto simp: transport_close_def onclose_def split: option.splits if_splits)

lemma transport_close_no_connect: "Connect r b \<notin> set (transport_close t s)"
  using transport_close_deletes by blast

lemma transport_close_no_end: "End b \<notin> set (transport_close t s)"
  using transport_close_deletes by blast

lemma scenario_D_registries:
  "sseSessions scenario_D = [(''S1'', 0), (''S2'', 1)]
   \<and> streamableSessions scenario_D = [(''S3'', 2)]"
  by (simp add: scenario_D_def sample_defs handler_defs run_defs machine_defs)

subsection \<open>The health reporter\<close>

text \<open>
  Claim C8. A GET of \<open>/health\<close> is answered by status 200 and the JSON of the health
  object: the status token \<open>ok\<close>, the timestamp, the version of the package or
  \<open>unknown\<close> when the environment has none, the uptime, the memory snapshot, and the sizes
  of the two registries with their sum as total. Any other method on \<open>/health\<close> is answered
  by 405 with the header \<open>Allow: GET\<close>. In both cases the listener resolves and leaves the
  registries and transports as they were.
\<close>

theorem health_report:
  assumes "URL (''http://localhost'' @ req_url req) = Some u" and "pathname u = ''/health''"
  shows "(req_method req = ''GET'' \<longrightarrow>
            response_of (fst (onRequest URL x req s)) =
              \<lparr>statusCode = 200, headers = [(''Content-Type'', ''application/json'')],
               ended = Some (Json (healthData (ext_process x) s))\<rparr>)
    \<and> status (healthData p s) = ''ok''
    \<and> timestamp (healthData p s) = now_iso p
    \<and> (npm_package_version p = None \<longrightarrow> version (healthData p s) = ''unknown'')
    \<and> (\<forall>v. npm_package_version p = Some v \<and> v \<noteq> [] \<longrightarrow> version (healthData p s) = v)
    \<and> uptime (healthData p s) = proc_uptime p
    \<and> memory (healthData p s) = memoryUsage p
    \<and> sse (sessions (healthData p s)) = length (sseSessions s)
    \<and> streamable (sessions (healthData p s)) = length (streamableSessions s)
    \<and> total (sessions (healthData p s))
         = sse (sessions (healthData p s)) + streamable (sessions (healthData p s))
    \<and> (req_method req \<noteq> ''GET'' \<longrightarrow>
          response_of (fst (onRequest URL x req s)) =
            \<lparr>statusCode = 405, headers = [(''Allow'', ''GET'')],
             ended = Some (Text ''Method not allowed'')\<rparr>)
    \<and> snd (onRequest URL x req s) = Returned
    \<and> step URL s (Request req x) = s"
  using assms by (simp add: handler_defs machine_defs healthData_def)

theorem health_report_witness:
  "sampleURL (''http://localhost'' @ req_url health_get) = Some \<lparr>pathname = ''/health'', searchParams = []\<rparr>
   \<and> sessions (healthData sample_process scenario_D) = \<lparr>sse = 2, streamable = 1, total = 3\<rparr>
   \<and> version (healthData sample_process scenario_D) = ''unknown''
   \<and> statusCode (response_of (fst (onRequest sampleURL ext_sample health_get scenario_D))) = 200
   \<and> step sampleURL scenario_D (Request health_get ext_sample) = scenario_D"
proof -
  have h: "sampleURL (''http://localhost'' @ req_url health_get)
      = Some \<lparr>pathname = ''/health'', searchParams = []\<rparr>"
    by (simp add: sample_defs)
  have m: "req_method health_get = ''GET''" and v: "npm_package_version sample_process = None"
    by (simp_all add: sample_defs)
  have eq: "sessions (healthData sample_process scenario_D)
      = \<lparr>sse = sse (sessions (healthData sample_process scenario_D)),
         streamable = streamable (sessions (healthData sample_process scenario_D)),
         total = total (sessions (healthData sample_process scenario_D))\<rparr>"
    by simp
  from health_report [of sampleURL health_get "\<lparr>pathname = ''/health'', searchParams = []\<rparr>"
      ext_sample scenario_D sample_process] h m v scenario_D_registries
  show ?thesis by (subst eq) simp
qed

subsection \<open>The legacy adapter: delivering a message\<close>

text \<open>
  Claim C4, as the code has it. On the legacy prefix a POST whose \<open>sessionId\<close> parameter is
  missing or empty is answered by 400 \<open>Missing sessionId\<close>, a POST whose non-empty parameter
  is not a key of the legacy registry by 404 \<open>Session not found\<close>, both without any change
  of the state; a POST whose parameter is a key of the registry is handed to
  \<open>handlePostMessage\<close> of the registered transport and to nothing else, and the handler
  resolves or rejects as that call does; a method other than POST and GET is answered
  by 405 \<open>Method not allowed\<close>.
\<close>

theorem legacy_post_validation:
  assumes "URL (''http://localhost'' @ req_url req) = Some u"
    and "prefix ''/sse'' (pathname u)"
  shows "(req_method req = ''POST'' \<and>
            (searchParams_get u ''sessionId'' = None \<or> searchParams_get u ''sessionId'' = Some [])
          \<longrightarrow> response_of (fst (onRequest URL x req s)) =
                \<lparr>statusCode = 400, headers = [], ended = Some (Text ''Missing sessionId'')\<rparr>
              \<and> step URL s (Request req x) = s)
    \<and> (\<forall>sid. req_method req = ''POST'' \<and> searchParams_get u ''sessionId'' = Some sid
              \<and> sid \<noteq> [] \<and> map_of (sseSessions s) sid = None
          \<longrightarrow> response_of (fst (onRequest URL x req s)) =
                \<lparr>statusCode = 404, headers = [], ended = Some (Text ''Session not found'')\<rparr>
              \<and> step URL s (Request req x) = s)
    \<and> (\<forall>sid t. req_method req = ''POST'' \<and> searchParams_get u ''sessionId'' = Some sid
              \<and> sid \<noteq> [] \<and> map_of (sseSessions s) sid = Some t
          \<longrightarrow> onRequest URL x req s =
                ([HandlePostMessage t],
                 if ext_post x then Returned else Rejected PostMessageFailed))
    \<and> (req_method req \<noteq> ''POST'' \<and> req_method req \<noteq> ''GET''
          \<longrightarrow> response_of (fst (onRequest URL x req s)) =
                \<lparr>statusCode = 405, headers = [], ended = Some (Text ''Method not allowed'')\<rparr>)"
proof -
  from assms(2) have nh: "pathname u \<noteq> ''/health''"
    by (rule sse_prefix_not_health)
  have run: "onRequest URL x req s = handleSSE x req u s"
    using assms nh by (simp add: onRequest_def)
  show ?thesis
    unfolding step_def event_effects.simps run
    by (auto simp: handleSSE_def Let_def run_effects_def response_of_def)
qed

theorem legacy_post_validation_witness:
  "sampleURL (''http://localhost'' @ req_url sse_post_S1)
     = Some \<lparr>pathname = ''/sse'', searchParams = [(''sessionId'', ''S1'')]\<rparr>
   \<and> statusCode (response_of (fst (onRequest sampleURL ext_sample sse_post_S1 init_state))) = 404
   \<and> onRequest sampleURL ext_sample sse_post_S1 scenario_D = ([HandlePostMessage 0], Returned)"
proof -
  have h: "sampleURL (''http://localhost'' @ req_url sse_post_S1)
      = Some \<lparr>pathname = ''/sse'', searchParams = [(''sessionId'', ''S1'')]\<rparr>"
    by (simp add: sample_defs)
  have p: "prefix ''/sse'' (pathname \<lparr>pathname = ''/sse'', searchParams = [(''sessionId'', ''S1'')]\<rparr>)"
    by simp
  have m: "req_method sse_post_S1 = ''POST''"
    by (simp add: sample_defs)
  have g: "searchParams_get \<lparr>pathname = ''/sse'', searchParams = [(''sessionId'', ''S1'')]\<rparr>
      ''sessionId'' = Some ''S1''"
    by (simp add: searchParams_get_def)
  have r0: "map_of (sseSessions init_state) ''S1'' = None"
    by (simp add: init_state_def)
  have rD: "map_of (sseSessions scenario_D) ''S1'' = Some 0"
    using scenario_D_registries by simp
  have x: "ext_post ext_sample"
    by (simp add: sample_defs)
  from legacy_post_validation [of sampleURL sse_post_S1
      "\<lparr>pathname = ''/sse'', searchParams = [(''sessionId'', ''S1'')]\<rparr>" ext_sample init_state]
    legacy_post_validation [of sampleURL sse_post_S1
      "\<lparr>pathname = ''/sse'', searchParams = [(''sessionId'', ''S1'')]\<rparr>" ext_sample scenario_D]
    h p m g r0 rD x
  show ?thesis by simp
qed

text \<open>
  The claim as the specification words it fails on a parameter that is present and empty:
  it names no registered session, and the answer is 400 \<open>Missing sessionId\<close>, not 404.
\<close>

theorem legacy_post_empty_id_counterexample:
  "sampleURL (''http://localhost'' @ req_url sse_post_empty)
     = Some \<lparr>pathname = ''/sse'', searchParams = [(''sessionId'', [])]\<rparr>
   \<and> searchParams_get \<lparr>pathname = ''/sse'', searchParams = [(''sessionId'', [])]\<rparr> ''sessionId''
       = Some []
   \<and> map_of (sseSessions init_state) [] = None
   \<and> response_of (fst (onRequest sampleURL ext_sample sse_post_empty init_state))
       = \<lparr>statusCode = 400, headers = [], ended = Some (Text ''Missing sessionId'')\<rparr>
   \<and> statusCode (response_of (fst (onRequest sampleURL ext_sample sse_post_empty init_state)))
       \<noteq> 404"
  by (simp add: sample_defs handler_defs run_defs machine_defs)

subsection \<open>The stateless-mode flag\<close>

text \<open>
  Claim C7. Every connect that the streamable adapter performs passes \<open>true\<close> as
  stateless flag, and it performs one on each of its two creation paths (for a header
  value that is not registered, and when a fresh transport of a POST without header is
  initialized). Every connect of the legacy adapter passes \<open>false\<close>, and a GET performs
  one. Without a port, \<open>start\<close> is the stdio transport, whose only effect is a connect
  with \<open>false\<close>; with a port \<open>start\<close> connects nothing.
\<close>

theorem stateless_flags:
  "(\<forall>r b. Connect r b \<in> set (fst (handleStreamable x req s))
       \<longrightarrow> b \<and> r = StreamableRef (next_tid s))
   \<and> (truthy (header req ''mcp-session-id'')
        \<and> map_of (streamableSessions s) (the (header req ''mcp-session-id'')) = None
       \<longrightarrow> Connect (StreamableRef (next_tid s)) True \<in> set (fst (handleStreamable x req s)))
   \<and> (\<not> truthy (header req ''mcp-session-id'') \<and> req_method req = ''POST'' \<and> ext_initialize x
       \<longrightarrow> Connect (StreamableRef (next_tid s)) True \<in> set (fst (handleStreamable x req s)))
   \<and> (\<forall>r b. Connect r b \<in> set (fst (handleSSE x req u s))
       \<longrightarrow> \<not> b \<and> r = SSERef (next_tid s))
   \<and> (req_method req = ''GET''
       \<longrightarrow> Connect (SSERef (next_tid s)) False \<in> set (fst (handleSSE x req u s)))
   \<and> start ok \<lparr>host = h, port = None\<rparr> = startStdioTransport ok
   \<and> fst (startStdioTransport ok) = [Connect StdioRef False]
   \<and> (\<forall>p r b. Connect r b \<notin> set (fst (start ok \<lparr>host = h, port = Some p\<rparr>)))"
proof -
  have a: "\<forall>r b. Connect r b \<in> set (fst (handleStreamable x req s))
       \<longrightarrow> b \<and> r = StreamableRef (next_tid s)"
    by (auto simp: handleStreamable_def run_defs transport_close_no_connect
        split: option.splits if_splits)
  have b: "truthy (header req ''mcp-session-id'')
        \<and> map_of (streamableSessions s) (the (header req ''mcp-session-id'')) = None
       \<longrightarrow> Connect (StreamableRef (next_tid s)) True \<in> set (fst (handleStreamable x req s))"
    by (auto simp: handleStreamable_def run_defs transport_close_no_connect
        split: option.splits if_splits)
  have c: "\<not> truthy (header req ''mcp-session-id'') \<and> req_method req = ''POST'' \<and> ext_initialize x
       \<longrightarrow> Connect (StreamableRef (next_tid s)) True \<in> set (fst (handleStreamable x req s))"
    by (auto simp: handleStreamable_def run_defs transport_close_no_connect
        split: option.splits if_splits)
  have d: "\<forall>r b. Connect r b \<in> set (fst (handleSSE x req u s))
       \<longrightarrow> \<not> b \<and> r = SSERef (next_tid s)"
    by (auto simp: handleSSE_def run_defs split: option.splits if_splits)
  have e: "req_method req = ''GET''
       \<longrightarrow> Connect (SSERef (next_tid s)) False \<in> set (fst (handleSSE x req u s))"
    by (auto simp: handleSSE_def run_defs split: option.splits if_splits)
  have f: "start ok \<lparr>host = h, port = None\<rparr> = startStdioTransport ok"
    "fst (startStdioTransport ok) = [Connect StdioRef False]"
    "\<forall>p r b. Connect r b \<notin> set (fst (start ok \<lparr>host = h, port = Some p\<rparr>))"
    by (simp_all add: start_def startStdioTransport_def mcp_connect_def)
  from a b c d e f show ?thesis by blast
qed

theorem stateless_flags_witness:
  "Connect (StreamableRef 0) True \<in> set (fst (handleStreamable ext_sample mcp_post_S3 init_state))
   \<and> Connect (StreamableRef 0) True \<in> set (fst (handleStreamable ext_sample mcp_post init_state))
   \<and> Connect (SSERef 0) False
       \<in> set (fst (handleSSE ext_sample sse_get \<lparr>pathname = ''/sse'', searchParams = []\<rparr> init_state))
   \<and> start True \<lparr>host = None, port = None\<rparr> = ([Connect StdioRef False], Returned)"
proof -
  have h: "truthy (header mcp_post_S3 ''mcp-session-id'')"
    "map_of (streamableSessions init_state) (the (header mcp_post_S3 ''mcp-session-id'')) = None"
    "\<not> truthy (header mcp_post ''mcp-session-id'')" "req_method mcp_post = ''POST''"
    "ext_initialize ext_sample" "req_method sse_get = ''GET''" "next_tid init_state = 0"
    by (simp_all add: sample_defs header_def)
  have o: "snd (startStdioTransport True) = Returned"
    by (simp add: startStdioTransport_def mcp_connect_def)
  from stateless_flags [of ext_sample mcp_post_S3 init_state
        "\<lparr>pathname = ''/sse'', searchParams = []\<rparr>" True None]
    stateless_flags [of ext_sample mcp_post init_state
        "\<lparr>pathname = ''/sse'', searchParams = []\<rparr>" True None]
    stateless_flags [of ext_sample sse_get init_state
        "\<lparr>pathname = ''/sse'', searchParams = []\<rparr>" True None]
    h o
  show ?thesis by (simp add: prod_eq_iff)
qed

subsection \<open>Runs of the listener: what an event can do, and what stays true\<close>

lemma in_sse_ids: "sid \<in> set (sse_ids s) \<longleftrightarrow> (\<exists>t obj. t < next_tid s \<and> sse_objs s t = Some obj \<and> sse_sessionId obj = sid)"
  unfolding sse_ids_def by (auto split: option.splits) force+

lemma apply_inert: "inert e \<Longrightarrow> apply_effect e s = s"
  by (cases e) simp_all

lemma run_inert: "\<forall>e \<in> set effs. inert e \<Longrightarrow> run_effects effs s = s"
  unfolding run_effects_def by (induction effs) (simp_all add: apply_inert)

lemma handleSSE_effects:
  "(\<forall>e \<in> set (fst (handleSSE x req u s)). inert e)
   \<or> fst (handleSSE x req u s) =
       [NewSSETransport (next_tid s) (ext_uuid x), SseSet (ext_uuid x) (next_tid s),
        Connect (SSERef (next_tid s)) False]
       @ (if ext_connect x then [OnResClose (next_tid s)] else [])"
  by (simp add: handleSSE_def run_defs split: option.splits)

lemma handleHealth_effects: "\<forall>e \<in> set (fst (handleHealth x req s)). inert e"
  by (simp add: handleHealth_def)

lemma close_of_created:
  assumes "h \<noteq> []"
  shows "transport_close n (run_effects
      [NewStreamableTransport n g c, SetOnclose n, SetSessionId n h, SetInitialized n,
       Connect r True, StreamableSet h n] s) = [StreamableDelete h]"
  using assms by (simp add: transport_close_def onclose_def run_effects_def upd_streamable_def)

lemma handleStreamable_created:
  assumes "header req ''mcp-session-id'' = Some h" and "h \<noteq> []"
    and "map_of (streamableSessions s) h = None"
  shows "handleStreamable x req s =
      ([NewStreamableTransport (next_tid s) (Fixed h) ConnectOnly, SetOnclose (next_tid s),
        SetSessionId (next_tid s) h, SetInitialized (next_tid s),
        Connect (StreamableRef (next_tid s)) True]
       @ (if ext_connect x
          then [StreamableSet h (next_tid s), HandleRequest (next_tid s)]
               @ (if sdk_closes x req then [StreamableDelete h] else [])
          else []),
       if ext_connect x then Returned else Rejected ConnectFailed)"
  using assms
  by (simp add: handleStreamable_def await_then_def mcp_connect_def onsessioninitialized_def
      handleRequest_def Let_def close_of_created)

lemma handleStreamable_existing:
  assumes "header req ''mcp-session-id'' = Some h" and "h \<noteq> []"
    and "map_of (streamableSessions s) h = Some t"
  shows "handleStreamable x req s =
      (HandleRequest t # (if sdk_closes x req then transport_close t s else []), Returned)"
  using assms by (simp add: handleStreamable_def handleRequest_def)

lemma transport_close_cases:
  obtains "transport_close t s = []"
  | obj sid where "streamable_objs s t = Some obj" "st_onclose obj"
      "st_sessionId obj = Some sid" "sid \<noteq> []" "transport_close t s = [StreamableDelete sid]"
proof (cases "streamable_objs s t")
  case None
  then have "transport_close t s = []" by (simp add: transport_close_def)
  then show ?thesis by (rule that(1))
next
  case (Some obj)
  show ?thesis
  proof (cases "st_onclose obj \<and> truthy (st_sessionId obj)")
    case False
    with Some have "transport_close t s = []"
      by (auto simp: transport_close_def onclose_def)
    then show ?thesis by (rule that(1))
  next
    case True
    then obtain sid where sid: "st_sessionId obj = Some sid" "sid \<noteq> []"
      by (cases "st_sessionId obj") auto
    with Some True have "transport_close t s = [StreamableDelete sid]"
      by (simp add: transport_close_def onclose_def)
    with Some True sid show ?thesis by (intro that(2)) auto
  qed
qed

lemma handleStreamable_effects:
  "(\<forall>e \<in> set (fst (handleStreamable x req s)). inert e)
   \<or> (\<exists>h. h \<noteq> [] \<and> map_of (streamableSessions s) h = None
        \<and> fst (handleStreamable x req s) =
           [NewStreamableTransport (next_tid s) (Fixed h) ConnectOnly, SetOnclose (next_tid s),
            SetSessionId (next_tid s) h, SetInitialized (next_tid s),
            Connect (StreamableRef (next_tid s)) True]
           @ (if ext_connect x
              then [StreamableSet h (next_tid s), HandleRequest (next_tid s)]
                   @ (if sdk_closes x req then [StreamableDelete h] else [])
              else []))
   \<or> (\<exists>h t obj sid. header req ''mcp-session-id'' = Some h
        \<and> map_of (streamableSessions s) h = Some t \<and> sdk_closes x req
        \<and> streamable_objs s t = Some obj \<and> st_onclose obj \<and> st_sessionId obj = Some sid
        \<and> sid \<noteq> []
        \<and> fst (handleStreamable x req s) = [HandleRequest t, StreamableDelete sid])
   \<or> fst (handleStreamable x req s) =
        [NewStreamableTransport (next_tid s) RandomUUID ConnectThenRegister,
         SetOnclose (next_tid s), HandleRequest (next_tid s)]
        @ (if ext_initialize x
           then [SetSessionId (next_tid s) (ext_uuid x), SetInitialized (next_tid s),
                 Connect (StreamableRef (next_tid s)) True]
                @ (if ext_connect x then [StreamableSet (ext_uuid x) (next_tid s)] else [])
           else [])"
proof (cases "truthy (header req ''mcp-session-id'')")
  case False
  then show ?thesis
    by (simp add: handleStreamable_def await_then_def mcp_connect_def onsessioninitialized_def
        handleRequest_fresh_def Let_def)
next
  case True
  then obtain h where h: "header req ''mcp-session-id'' = Some h" "h \<noteq> []"
    by (cases "header req ''mcp-session-id''") auto
  show ?thesis
  proof (cases "map_of (streamableSessions s) h")
    case None
    with h handleStreamable_created [OF h None, of x] show ?thesis
      by auto
  next
    case (Some t)
    note run = handleStreamable_existing [OF h Some, of x]
    show ?thesis
    proof (cases "sdk_closes x req")
      case False
      with run show ?thesis by simp
    next
      case closes: True
      show ?thesis
      proof (cases rule: transport_close_cases [of t s])
        case 1
        with run show ?thesis by simp
      next
        case (2 obj sid)
        with run closes h Some show ?thesis by auto
      qed
    qed
  qed
qed

lemma event_effects_cases [case_names inert legacy_open header_new header_closed post_new
    legacy_closed streamable_closed]:
  obtains "\<forall>a \<in> set (event_effects URL s e). inert a"
  | req x where "e = Request req x"
      "event_effects URL s e =
         [NewSSETransport (next_tid s) (ext_uuid x), SseSet (ext_uuid x) (next_tid s),
          Connect (SSERef (next_tid s)) False]
         @ (if ext_connect x then [OnResClose (next_tid s)] else [])"
  | req x h where "e = Request req x" "h \<noteq> []" "map_of (streamableSessions s) h = None"
      "event_effects URL s e =
         [NewStreamableTransport (next_tid s) (Fixed h) ConnectOnly, SetOnclose (next_tid s),
          SetSessionId (next_tid s) h, SetInitialized (next_tid s),
          Connect (StreamableRef (next_tid s)) True]
         @ (if ext_connect x
            then [StreamableSet h (next_tid s), HandleRequest (next_tid s)]
                 @ (if sdk_closes x req then [StreamableDelete h] else [])
            else [])"
  | req x h t obj sid where "e = Request req x" "header req ''mcp-session-id'' = Some h"
      "map_of (streamableSessions s) h = Some t" "sdk_closes x req"
      "streamable_objs s t = Some obj" "st_onclose obj" "st_sessionId obj = Some sid"
      "sid \<noteq> []" "event_effects URL s e = [HandleRequest t, StreamableDelete sid]"
  | req x where "e = Request req x"
      "event_effects URL s e =
         [NewStreamableTransport (next_tid s) RandomUUID ConnectThenRegister,
          SetOnclose (next_tid s), HandleRequest (next_tid s)]
         @ (if ext_initialize x
            then [SetSessionId (next_tid s) (ext_uuid x), SetInitialized (next_tid s),
                  Connect (StreamableRef (next_tid s)) True]
                 @ (if ext_connect x then [StreamableSet (ext_uuid x) (next_tid s)] else [])
            else [])"
  | t obj where "e = ResClose t" "t \<in> close_listeners s" "sse_objs s t = Some obj"
      "event_effects URL s e = [SseDelete (sse_sessionId obj)]"
  | t obj sid where "e = TransportClose t" "streamable_objs s t = Some obj" "st_onclose obj"
      "st_sessionId obj = Some sid" "sid \<noteq> []"
      "event_effects URL s e = [StreamableDelete sid]"
proof (cases e)
  case (Request req x)
  show ?thesis
  proof (cases "URL (''http://localhost'' @ req_url req)")
    case None
    with Request have "\<forall>a \<in> set (event_effects URL s e). inert a"
      by (simp add: onRequest_def)
    then show ?thesis by (rule that(1))
  next
    case (Some u)
    consider "pathname u = ''/health''"
      | "pathname u \<noteq> ''/health''" "prefix ''/sse'' (pathname u)"
      | "pathname u \<noteq> ''/health''" "\<not> prefix ''/sse'' (pathname u)"
      by blast
    then show ?thesis
    proof cases
      case 1
      with Request Some have "event_effects URL s e = fst (handleHealth x req s)"
        by (simp add: onRequest_def)
      with handleHealth_effects [of x req s] show ?thesis
        by (auto intro: that(1))
    next
      case 2
      with Request Some have "event_effects URL s e = fst (handleSSE x req u s)"
        by (simp add: onRequest_def)
      with handleSSE_effects [of x req u s] Request show ?thesis
        by (auto intro: that(1) that(2))
    next
      case 3
      with Request Some have "event_effects URL s e = fst (handleStreamable x req s)"
        by (simp add: onRequest_def)
      with handleStreamable_effects [of x req s] Request show ?thesis
        using that(1) that(3) that(4) that(5) by metis
    qed
  qed
next
  case (ResClose t)
  show ?thesis
  proof (cases "t \<in> close_listeners s")
    case False
    with ResClose have "\<forall>a \<in> set (event_effects URL s e). inert a" by simp
    then show ?thesis by (rule that(1))
  next
    case True
    show ?thesis
    proof (cases "sse_objs s t")
      case None
      with ResClose True have "\<forall>a \<in> set (event_effects URL s e). inert a"
        by (simp add: sse_close_listener_def)
      then show ?thesis by (rule that(1))
    next
      case (Some obj)
      with ResClose True have "event_effects URL s e = [SseDelete (sse_sessionId obj)]"
        by (simp add: sse_close_listener_def)
      with ResClose True Some show ?thesis by (rule that(6))
    qed
  qed
next
  case (TransportClose t)
  show ?thesis
  proof (cases rule: transport_close_cases [of t s])
    case 1
    with TransportClose have "\<forall>a \<in> set (event_effects URL s e). inert a" by simp
    then show ?thesis by (rule that(1))
  next
    case (2 obj sid)
    with TransportClose show ?thesis by (intro that(7)) auto
  qed
qed

lemma allocated_step: "allocated s \<Longrightarrow> allocated (step URL s e)"
proof (cases rule: event_effects_cases [of URL s e])
  case inert
  then show "allocated s \<Longrightarrow> allocated (step URL s e)" by (simp add: step_def run_inert)
next
  case (legacy_open req x)
  then show "allocated s \<Longrightarrow> allocated (step URL s e)"
    by (auto simp: step_def run_effects_def allocated_def less_Suc_eq)
next
  case (header_new req x h)
  then show "allocated s \<Longrightarrow> allocated (step URL s e)"
    by (auto simp: step_def run_effects_def allocated_def upd_streamable_def less_Suc_eq)
next
  case (header_closed req x h t obj sid)
  then show "allocated s \<Longrightarrow> allocated (step URL s e)"
    by (simp add: step_def run_effects_def allocated_def)
next
  case (post_new req x)
  then show "allocated s \<Longrightarrow> allocated (step URL s e)"
    by (auto simp: step_def run_effects_def allocated_def upd_streamable_def less_Suc_eq)
next
  case (legacy_closed t obj)
  then show "allocated s \<Longrightarrow> allocated (step URL s e)"
    by (simp add: step_def run_effects_def allocated_def)
next
  case (streamable_closed t obj sid)
  then show "allocated s \<Longrightarrow> allocated (step URL s e)"
    by (simp add: step_def run_effects_def allocated_def)
qed


lemma leaked_known:
  assumes "leaked sid t s"
  shows "t < next_tid s" and "sid \<in> set (sse_ids s)"
proof -
  from assms have obj: "sse_objs s t = Some \<lparr>sse_sessionId = sid\<rparr>"
    by (simp add: leaked_def)
  with assms show below: "t < next_tid s"
    by (simp add: leaked_def allocated_def)
  from obj below show "sid \<in> set (sse_ids s)"
    unfolding in_sse_ids by (intro exI [of _ t] exI [of _ "\<lparr>sse_sessionId = sid\<rparr>"]) simp
qed

lemma leaked_step:
  assumes "leaked sid t s" and "fresh_event s e"
  shows "leaked sid t (step URL s e)"
proof -
  from assms(1) have alloc: "allocated (step URL s e)"
    by (simp add: leaked_def allocated_step)
  from assms(1) have known: "t < next_tid s" "sid \<in> set (sse_ids s)"
    by (simp_all add: leaked_known)
  show ?thesis
  proof (cases rule: event_effects_cases [of URL s e])
    case inert
    with assms(1) show ?thesis by (simp add: step_def run_inert)
  next
    case (legacy_open req x)
    with assms(2) known have "ext_uuid x \<noteq> sid" "next_tid s \<noteq> t"
      by auto
    with legacy_open assms(1) alloc show ?thesis
      by (auto simp: step_def run_effects_def leaked_def update_conv')
  next
    case (header_new req x h)
    with assms(1) alloc show ?thesis
      by (auto simp: step_def run_effects_def leaked_def upd_streamable_def)
  next
    case (header_closed req x h t' obj sid')
    with assms(1) alloc show ?thesis
      by (auto simp: step_def run_effects_def leaked_def)
  next
    case (post_new req x)
    with assms(1) alloc show ?thesis
      by (auto simp: step_def run_effects_def leaked_def upd_streamable_def)
  next
    case (legacy_closed t' obj)
    with assms(1) have "sse_sessionId obj \<noteq> sid"
      by (auto simp: leaked_def)
    with legacy_closed assms(1) alloc show ?thesis
      by (auto simp: step_def run_effects_def leaked_def delete_conv')
  next
    case (streamable_closed t' obj sid')
    with assms(1) alloc show ?thesis
      by (auto simp: step_def run_effects_def leaked_def)
  qed
qed

lemma leaked_steps:
  "leaked sid t s \<Longrightarrow> fresh_events URL s evs \<Longrightarrow> leaked sid t (steps URL s evs)"
  by (induction evs arbitrary: s) (simp_all add: leaked_step)



lemma allocated_steps: "allocated s \<Longrightarrow> allocated (steps URL s evs)"
  by (induction evs arbitrary: s) (simp_all add: allocated_step)

lemma init_allocated: "allocated init_state"
  by (simp add: allocated_def init_state_def)


lemma steps_append: "steps URL s (es @ fs) = steps URL (steps URL s es) fs"
  by (induction es arbitrary: s) simp_all

lemma fresh_events_append:
  "fresh_events URL s (es @ fs) \<longleftrightarrow>
     fresh_events URL s es \<and> fresh_events URL (steps URL s es) fs"
  by (induction es arbitrary: s) auto


subsection \<open>The streamable adapter\<close>

lemma map_of_update_same: "map_of (AList.update k v al) k = Some v"
  by (simp add: update_conv')







text \<open>
  Claim C10, as the code has it. The adapter itself ends a response only for a request
  whose session header is absent or empty and whose method is not POST, and then by 400
  \<open>Invalid request\<close>. A request with a non-empty header value, whatever its method, is
  forwarded to the registered transport when the value is a key of the registry.
  Otherwise a transport is created for it; when the connect resolves, the transport is
  registered under the value and then receives the request (a DELETE that it accepts
  closes it, which removes the entry again before the handler returns, and any other
  request leaves it registered); when the connect rejects, the handler rejects, nothing
  is registered and the request is not forwarded.
\<close>

theorem invalid_request_reachability:
  "((\<exists>b. End b \<in> set (fst (handleStreamable x req s)))
      \<longleftrightarrow> \<not> truthy (header req ''mcp-session-id'') \<and> req_method req \<noteq> ''POST'')
   \<and> (\<not> truthy (header req ''mcp-session-id'') \<and> req_method req \<noteq> ''POST''
       \<longrightarrow> response_of (fst (handleStreamable x req s)) =
            \<lparr>statusCode = 400, headers = [], ended = Some (Text ''Invalid request'')\<rparr>)
   \<and> (\<forall>h t. header req ''mcp-session-id'' = Some h \<and> h \<noteq> []
          \<and> map_of (streamableSessions s) h = Some t
       \<longrightarrow> handleStreamable x req s =
            (HandleRequest t # (if sdk_closes x req then transport_close t s else []),
             Returned))
   \<and> (\<forall>h. header req ''mcp-session-id'' = Some h \<and> h \<noteq> []
          \<and> map_of (streamableSessions s) h = None \<and> ext_connect x
       \<longrightarrow> handleStreamable x req s =
             ([NewStreamableTransport (next_tid s) (Fixed h) ConnectOnly,
               SetOnclose (next_tid s),
               SetSessionId (next_tid s) h,
               SetInitialized (next_tid s),
               Connect (StreamableRef (next_tid s)) True,
               StreamableSet h (next_tid s),
               HandleRequest (next_tid s)]
              @ (if sdk_closes x req then [StreamableDelete h] else []), Returned)
         \<and> map_of (streamableSessions
              (run_effects (take 6 (fst (handleStreamable x req s))) s)) h = Some (next_tid s)
         \<and> map_of (streamableSessions (run_effects (fst (handleStreamable x req s)) s)) h
             = (if sdk_closes x req then None else Some (next_tid s)))
   \<and> (\<forall>h. header req ''mcp-session-id'' = Some h \<and> h \<noteq> []
          \<and> map_of (streamableSessions s) h = None \<and> \<not> ext_connect x
       \<longrightarrow> snd (handleStreamable x req s) = Rejected ConnectFailed
         \<and> HandleRequest (next_tid s) \<notin> set (fst (handleStreamable x req s))
         \<and> StreamableSet h (next_tid s) \<notin> set (fst (handleStreamable x req s))
         \<and> streamableSessions (run_effects (fst (handleStreamable x req s)) s)
             = streamableSessions s)"
proof -
  have a: "(\<exists>b. End b \<in> set (fst (handleStreamable x req s)))
      \<longleftrightarrow> \<not> truthy (header req ''mcp-session-id'') \<and> req_method req \<noteq> ''POST''"
    by (auto simp: handleStreamable_def run_defs transport_close_no_end
        split: option.splits if_splits)
  have b: "\<not> truthy (header req ''mcp-session-id'') \<and> req_method req \<noteq> ''POST''
       \<longrightarrow> response_of (fst (handleStreamable x req s)) =
            \<lparr>statusCode = 400, headers = [], ended = Some (Text ''Invalid request'')\<rparr>"
    by (simp add: handleStreamable_def run_defs response_of_def)
  have c: "\<forall>h t. header req ''mcp-session-id'' = Some h \<and> h \<noteq> []
          \<and> map_of (streamableSessions s) h = Some t
       \<longrightarrow> handleStreamable x req s =
            (HandleRequest t # (if sdk_closes x req then transport_close t s else []),
             Returned)"
    by (simp add: handleStreamable_existing)
  have d: "handleStreamable x req s =
             ([NewStreamableTransport (next_tid s) (Fixed h) ConnectOnly,
               SetOnclose (next_tid s),
               SetSessionId (next_tid s) h,
               SetInitialized (next_tid s),
               Connect (StreamableRef (next_tid s)) True,
               StreamableSet h (next_tid s),
               HandleRequest (next_tid s)]
              @ (if sdk_closes x req then [StreamableDelete h] else []), Returned)
         \<and> map_of (streamableSessions
              (run_effects (take 6 (fst (handleStreamable x req s))) s)) h = Some (next_tid s)
         \<and> map_of (streamableSessions (run_effects (fst (handleStreamable x req s)) s)) h
             = (if sdk_closes x req then None else Some (next_tid s))"
    if "header req ''mcp-session-id'' = Some h" "h \<noteq> []"
      "map_of (streamableSessions s) h = None" "ext_connect x" for h
    using handleStreamable_created [OF that(1-3), of x] that(4)
    by (simp add: run_effects_def upd_streamable_def map_of_update_same delete_conv')
  have e: "snd (handleStreamable x req s) = Rejected ConnectFailed
         \<and> HandleRequest (next_tid s) \<notin> set (fst (handleStreamable x req s))
         \<and> StreamableSet h (next_tid s) \<notin> set (fst (handleStreamable x req s))
         \<and> streamableSessions (run_effects (fst (handleStreamable x req s)) s)
             = streamableSessions s"
    if "header req ''mcp-session-id'' = Some h" "h \<noteq> []"
      "map_of (streamableSessions s) h = None" "\<not> ext_connect x" for h
    using handleStreamable_created [OF that(1-3), of x] that(4)
    by (simp add: run_effects_def upd_streamable_def)
  from a b c d e show ?thesis by blast
qed

theorem invalid_request_reachability_witness:
  "response_of (fst (handleStreamable ext_sample mcp_get init_state))
     = \<lparr>statusCode = 400, headers = [], ended = Some (Text ''Invalid request'')\<rparr>
   \<and> map_of (streamableSessions
        (run_effects (fst (handleStreamable ext_sample mcp_post_S3 init_state)) init_state)) ''S3''
       = Some 0
   \<and> map_of (streamableSessions
        (run_effects (take 6 (fst (handleStreamable ext_sample mcp_delete_S3 init_state)))
           init_state)) ''S3''
       = Some 0
   \<and> map_of (streamableSessions
        (run_effects (fst (handleStreamable ext_sample mcp_delete_S3 init_state)) init_state))
        ''S3''
       = None
   \<and> snd (handleStreamable (ext_of ''U1'' False True) mcp_post_S3 init_state)
       = Rejected ConnectFailed
   \<and> handleStreamable ext_sample mcp_post_S3 scenario_D = ([HandleRequest 2], Returned)"
proof -
  have h: "\<not> truthy (header mcp_get ''mcp-session-id'')" "req_method mcp_get \<noteq> ''POST''"
    "header mcp_post_S3 ''mcp-session-id'' = Some ''S3''" "''S3'' \<noteq> []"
    "header mcp_delete_S3 ''mcp-session-id'' = Some ''S3''"
    "map_of (streamableSessions init_state) ''S3'' = None" "ext_connect ext_sample"
    "\<not> ext_connect (ext_of ''U1'' False True)" "next_tid init_state = 0"
    "\<not> sdk_closes ext_sample mcp_post_S3" "sdk_closes ext_sample mcp_delete_S3"
    by (simp_all add: sample_defs header_def sdk_closes_def)
  have d: "map_of (streamableSessions scenario_D) ''S3'' = Some 2"
    using scenario_D_registries by simp
  from invalid_request_reachability [of ext_sample mcp_get init_state] h(1,2)
  have a: "response_of (fst (handleStreamable ext_sample mcp_get init_state))
     = \<lparr>statusCode = 400, headers = [], ended = Some (Text ''Invalid request'')\<rparr>"
    by blast
  from invalid_request_reachability [of ext_sample mcp_post_S3 init_state] h(3,4,6,7)
  have "map_of (streamableSessions
        (run_effects (fst (handleStreamable ext_sample mcp_post_S3 init_state)) init_state)) ''S3''
       = (if sdk_closes ext_sample mcp_post_S3 then None else Some (next_tid init_state))"
    by blast
  with h(9,10) have b: "map_of (streamableSessions
        (run_effects (fst (handleStreamable ext_sample mcp_post_S3 init_state)) init_state)) ''S3''
       = Some 0"
    by simp
  from invalid_request_reachability [of ext_sample mcp_delete_S3 init_state] h(4,5,6,7)
  have "map_of (streamableSessions
        (run_effects (take 6 (fst (handleStreamable ext_sample mcp_delete_S3 init_state)))
           init_state)) ''S3'' = Some (next_tid init_state)
      \<and> map_of (streamableSessions
        (run_effects (fst (handleStreamable ext_sample mcp_delete_S3 init_state)) init_state))
        ''S3'' = (if sdk_closes ext_sample mcp_delete_S3 then None else Some (next_tid init_state))"
    by blast
  with h(9,11) have c: "map_of (streamableSessions
        (run_effects (take 6 (fst (handleStreamable ext_sample mcp_delete_S3 init_state)))
           init_state)) ''S3'' = Some 0"
    "map_of (streamableSessions
        (run_effects (fst (handleStreamable ext_sample mcp_delete_S3 init_state)) init_state))
        ''S3'' = None"
    by simp_all
  from invalid_request_reachability [of "ext_of ''U1'' False True" mcp_post_S3 init_state]
    h(3,4,6,8)
  have e: "snd (handleStreamable (ext_of ''U1'' False True) mcp_post_S3 init_state)
       = Rejected ConnectFailed"
    by blast
  from invalid_request_reachability [of ext_sample mcp_post_S3 scenario_D] h(3,4) d
  have "handleStreamable ext_sample mcp_post_S3 scenario_D =
      (HandleRequest 2 # (if sdk_closes ext_sample mcp_post_S3
         then transport_close 2 scenario_D else []), Returned)"
    by blast
  with h(10) have f: "handleStreamable ext_sample mcp_post_S3 scenario_D
      = ([HandleRequest 2], Returned)"
    by simp
  from a b c e f show ?thesis by blast
qed

text \<open>
  The claim as the specification words it fails in two ways. A header that is present
  with an empty value does not count: this GET carries the header and is answered by 400
  \<open>Invalid request\<close>. And when the connect rejects, a request with an unseen header value
  is neither forwarded nor registered: the handler rejects.
\<close>

theorem invalid_request_counterexample:
  "header mcp_get_empty_header ''mcp-session-id'' = Some []
   \<and> response_of (fst (onRequest sampleURL ext_sample mcp_get_empty_header init_state))
       = \<lparr>statusCode = 400, headers = [], ended = Some (Text ''Invalid request'')\<rparr>
   \<and> step sampleURL init_state (Request mcp_get_empty_header ext_sample) = init_state
   \<and> header mcp_post_S3 ''mcp-session-id'' = Some ''S3''
   \<and> onRequest sampleURL (ext_of ''U1'' False True) mcp_post_S3 init_state
       = ([NewStreamableTransport 0 (Fixed ''S3'') ConnectOnly, SetOnclose 0,
           SetSessionId 0 ''S3'', SetInitialized 0, Connect (StreamableRef 0) True],
          Rejected ConnectFailed)
   \<and> streamableSessions
        (step sampleURL init_state (Request mcp_post_S3 (ext_of ''U1'' False True))) = []"
  by (simp add: sample_defs handler_defs run_defs machine_defs)

text \<open>
  Claim C3. A POST without session header makes a transport whose generator is
  \<open>crypto.randomUUID\<close> and whose callback connects and then registers. At every point of
  the handler (after every prefix of its effects) the streamable registry is either
  still the one the handler found, or it is that registry with the generated identifier
  set to the new transport; in the second case the connect with stateless flag \<open>true\<close> has
  already been performed and has resolved, and the transport already carries that
  identifier and the initialized flag. When the transport is initialized and the connect
  resolves, the registration is the last effect; otherwise the registry stays as it was.
\<close>

theorem post_without_header_registers_after_connect:
  assumes "\<not> truthy (header req ''mcp-session-id'')" and "req_method req = ''POST''"
  shows "take 2 (fst (handleStreamable x req s)) =
      [NewStreamableTransport (next_tid s) RandomUUID ConnectThenRegister, SetOnclose (next_tid s)]
    \<and> (\<forall>p \<in> set (prefixes (fst (handleStreamable x req s))).
          streamableSessions (run_effects p s) = streamableSessions s
          \<or> (streamableSessions (run_effects p s)
                = AList.update (ext_uuid x) (next_tid s) (streamableSessions s)
              \<and> Connect (StreamableRef (next_tid s)) True \<in> set p
              \<and> ext_connect x
              \<and> streamable_objs (run_effects p s) (next_tid s)
                  = Some \<lparr>st_generator = RandomUUID, st_oninit = ConnectThenRegister,
                          st_sessionId = Some (ext_uuid x), st_initialized = True,
                          st_onclose = True\<rparr>))
    \<and> (ext_initialize x \<and> ext_connect x \<longrightarrow>
          handleStreamable x req s =
            ([NewStreamableTransport (next_tid s) RandomUUID ConnectThenRegister,
              SetOnclose (next_tid s),
              HandleRequest (next_tid s),
              SetSessionId (next_tid s) (ext_uuid x),
              SetInitialized (next_tid s),
              Connect (StreamableRef (next_tid s)) True,
              StreamableSet (ext_uuid x) (next_tid s)], Returned)
          \<and> map_of (streamableSessions (run_effects (fst (handleStreamable x req s)) s))
               (ext_uuid x) = Some (next_tid s))
    \<and> (\<not> (ext_initialize x \<and> ext_connect x) \<longrightarrow>
          streamableSessions (run_effects (fst (handleStreamable x req s)) s)
            = streamableSessions s)"
proof (cases "ext_initialize x")
  case False
  with assms have run: "handleStreamable x req s =
      ([NewStreamableTransport (next_tid s) RandomUUID ConnectThenRegister,
        SetOnclose (next_tid s), HandleRequest (next_tid s)], Returned)"
    by (simp add: handleStreamable_def run_defs)
  show ?thesis unfolding run using False
    by (simp add: machine_defs)
next
  case init: True
  show ?thesis
  proof (cases "ext_connect x")
    case False
    with assms init have run: "handleStreamable x req s =
        ([NewStreamableTransport (next_tid s) RandomUUID ConnectThenRegister,
          SetOnclose (next_tid s),
          HandleRequest (next_tid s),
          SetSessionId (next_tid s) (ext_uuid x),
          SetInitialized (next_tid s),
          Connect (StreamableRef (next_tid s)) True], Returned)"
      by (simp add: handleStreamable_def run_defs)
    show ?thesis unfolding run using False
      by (simp add: machine_defs)
  next
    case True
    with assms init have run: "handleStreamable x req s =
        ([NewStreamableTransport (next_tid s) RandomUUID ConnectThenRegister,
          SetOnclose (next_tid s),
          HandleRequest (next_tid s),
          SetSessionId (next_tid s) (ext_uuid x),
          SetInitialized (next_tid s),
          Connect (StreamableRef (next_tid s)) True,
          StreamableSet (ext_uuid x) (next_tid s)], Returned)"
      by (simp add: handleStreamable_def run_defs)
    show ?thesis unfolding run using True init
      by (simp add: machine_defs map_of_update_same)
  qed
qed

theorem post_without_header_registers_after_connect_witness:
  "\<not> truthy (header mcp_post ''mcp-session-id'') \<and> req_method mcp_post = ''POST''
   \<and> streamableSessions (step sampleURL init_state (Request mcp_post ext_sample)) = [(''U1'', 0)]
   \<and> streamableSessions
        (step sampleURL init_state (Request mcp_post (ext_of ''U1'' False True))) = []
   \<and> streamableSessions
        (run_effects (take 6 (fst (handleStreamable ext_sample mcp_post init_state))) init_state)
       = []"
proof -
  have h: "\<not> truthy (header mcp_post ''mcp-session-id'')" "req_method mcp_post = ''POST''"
    by (simp_all add: sample_defs header_def)
  have v: "ext_initialize ext_sample" "ext_connect ext_sample" "ext_uuid ext_sample = ''U1''"
    "\<not> ext_connect (ext_of ''U1'' False True)" "next_tid init_state = 0"
    "streamableSessions init_state = []"
    by (simp_all add: sample_defs)
  have r: "step sampleURL init_state (Request mcp_post y)
      = run_effects (fst (handleStreamable y mcp_post init_state)) init_state" for y
    by (simp add: step_def onRequest_def sampleURL_def mcp_post_def)
  note ok = post_without_header_registers_after_connect [of mcp_post ext_sample init_state, OF h]
  note ko = post_without_header_registers_after_connect
    [of mcp_post "ext_of ''U1'' False True" init_state, OF h]
  from ok v have fin: "handleStreamable ext_sample mcp_post init_state =
      ([NewStreamableTransport 0 RandomUUID ConnectThenRegister, SetOnclose 0, HandleRequest 0,
        SetSessionId 0 ''U1'', SetInitialized 0, Connect (StreamableRef 0) True,
        StreamableSet ''U1'' 0], Returned)"
    by simp
  have a: "streamableSessions (step sampleURL init_state (Request mcp_post ext_sample))
      = [(''U1'', 0)]"
    unfolding r fin by (simp add: machine_defs init_state_def)
  from ko v have b: "streamableSessions
      (step sampleURL init_state (Request mcp_post (ext_of ''U1'' False True))) = []"
    unfolding r by simp
  have c: "streamableSessions
      (run_effects (take 6 (fst (handleStreamable ext_sample mcp_post init_state))) init_state)
      = []"
    unfolding fin by (simp add: machine_defs init_state_def)
  from h a b c show ?thesis by blast
qed

subsection \<open>Closing a session\<close>

text \<open>
  A streamable session, made on either path, leaves the registry when its transport
  closes: a lookup of its identifier then finds nothing.
\<close>

lemma streamable_close_removes:
  assumes "streamable_registered s" and "map_of (streamableSessions s) sid = Some t"
  shows "map_of (streamableSessions (step URL s (TransportClose t))) sid = None"
proof -
  from assms obtain obj where "streamable_objs s t = Some obj" "st_sessionId obj = Some sid"
    "st_onclose obj" "sid \<noteq> []"
    unfolding streamable_registered_def by blast
  then show ?thesis
    by (simp add: step_def run_effects_def transport_close_def onclose_def delete_conv')
qed

text \<open>A legacy session whose response has the close listener leaves the registry on close.\<close>

lemma legacy_close_removes:
  assumes "t \<in> close_listeners s" and "sse_objs s t = Some obj"
  shows "map_of (sseSessions (step URL s (ResClose t))) (sse_sessionId obj) = None"
  using assms by (simp add: step_def run_effects_def sse_close_listener_def delete_conv')

lemma leaked_after_failed_get:
  assumes "allocated s" and "fresh_event s (Request req x)"
    and "URL (''http://localhost'' @ req_url req) = Some u" and "prefix ''/sse'' (pathname u)"
    and "req_method req = ''GET''" and "\<not> ext_connect x"
  shows "leaked (ext_uuid x) (next_tid s) (step URL s (Request req x))"
proof -
  from assms(4) have "pathname u \<noteq> ''/health''"
    by (rule sse_prefix_not_health)
  with assms(3-6) have effs: "event_effects URL s (Request req x) =
      [NewSSETransport (next_tid s) (ext_uuid x), SseSet (ext_uuid x) (next_tid s),
       Connect (SSERef (next_tid s)) False]"
    by (simp add: onRequest_def handleSSE_def run_defs)
  have st: "step URL s (Request req x) = run_effects
      [NewSSETransport (next_tid s) (ext_uuid x), SseSet (ext_uuid x) (next_tid s),
       Connect (SSERef (next_tid s)) False] s"
    by (simp only: step_def effs)
  from assms(1) have alloc: "allocated (step URL s (Request req x))"
    by (rule allocated_step)
  from assms(2) have fresh: "sse_objs s t' = Some obj \<Longrightarrow> t' < next_tid s
      \<Longrightarrow> sse_sessionId obj \<noteq> ext_uuid x" for t' obj
    by (auto simp: in_sse_ids)
  from assms(1) have below: "sse_objs s t' = Some obj \<Longrightarrow> t' < next_tid s" for t' obj
    by (simp add: allocated_def)
  from assms(1) have nolistener: "next_tid s \<notin> close_listeners s"
    by (auto simp: allocated_def)
  have only: "\<forall>t' obj. sse_objs (step URL s (Request req x)) t' = Some obj
      \<and> sse_sessionId obj = ext_uuid x \<longrightarrow> t' = next_tid s"
    using fresh below unfolding st by (auto simp: run_effects_def)
  have reg: "map_of (sseSessions (step URL s (Request req x))) (ext_uuid x) = Some (next_tid s)"
    unfolding st by (simp add: run_effects_def update_conv')
  from nolistener have nol: "next_tid s \<notin> close_listeners (step URL s (Request req x))"
    unfolding st by (simp add: run_effects_def)
  have obj: "sse_objs (step URL s (Request req x)) (next_tid s)
      = Some \<lparr>sse_sessionId = ext_uuid x\<rparr>"
    unfolding st by (simp add: run_effects_def)
  from alloc reg nol obj only show ?thesis
    unfolding leaked_def by blast
qed

text \<open>
  Claim C9. A GET on the legacy prefix constructs the transport, stores it in the legacy
  registry, then awaits the connect, and only when the connect has resolved puts the
  close listener on the response. When the connect rejects, the handler rejects with the
  entry stored and no listener; in every run of the listener that goes on from there
  (requests, closes of responses, this one included, and closes of transports, the
  generator never repeating an identifier), the entry is still in the registry and still
  has no listener.
\<close>

theorem failed_connect_leaks_legacy_session:
  assumes "URL (''http://localhost'' @ req_url req) = Some u" and "prefix ''/sse'' (pathname u)"
    and "req_method req = ''GET''"
    and "s = steps URL init_state evs"
    and "fresh_events URL init_state (evs @ Request req x # evs')"
  shows "(ext_connect x \<longrightarrow> onRequest URL x req s =
            ([NewSSETransport (next_tid s) (ext_uuid x), SseSet (ext_uuid x) (next_tid s),
              Connect (SSERef (next_tid s)) False, OnResClose (next_tid s)], Returned))
    \<and> (\<not> ext_connect x \<longrightarrow>
          onRequest URL x req s =
            ([NewSSETransport (next_tid s) (ext_uuid x), SseSet (ext_uuid x) (next_tid s),
              Connect (SSERef (next_tid s)) False], Rejected ConnectFailed)
          \<and> map_of (sseSessions (steps URL init_state (evs @ Request req x # evs'))) (ext_uuid x)
              = Some (next_tid s)
          \<and> next_tid s \<notin> close_listeners (steps URL init_state (evs @ Request req x # evs')))"
proof -
  from assms(2) have nh: "pathname u \<noteq> ''/health''"
    by (rule sse_prefix_not_health)
  have run: "onRequest URL x req s = handleSSE x req u s"
    using assms(1,2) nh by (simp add: onRequest_def)
  have order: "ext_connect x \<longrightarrow> onRequest URL x req s =
            ([NewSSETransport (next_tid s) (ext_uuid x), SseSet (ext_uuid x) (next_tid s),
              Connect (SSERef (next_tid s)) False, OnResClose (next_tid s)], Returned)"
    unfolding run using assms(3) by (simp add: handleSSE_def run_defs)
  have failed: "\<not> ext_connect x \<longrightarrow> onRequest URL x req s =
            ([NewSSETransport (next_tid s) (ext_uuid x), SseSet (ext_uuid x) (next_tid s),
              Connect (SSERef (next_tid s)) False], Rejected ConnectFailed)"
    unfolding run using assms(3) by (simp add: handleSSE_def run_defs)
  have kept: "map_of (sseSessions (steps URL init_state (evs @ Request req x # evs'))) (ext_uuid x)
              = Some (next_tid s)
          \<and> next_tid s \<notin> close_listeners (steps URL init_state (evs @ Request req x # evs'))"
    if rejects: "\<not> ext_connect x"
  proof -
    from assms(4) have alloc: "allocated s"
      by (simp add: allocated_steps init_allocated)
    from assms(4,5) have fresh: "fresh_event s (Request req x)"
      and rest: "fresh_events URL (step URL s (Request req x)) evs'"
      by (simp_all add: fresh_events_append)
    from alloc fresh assms(1-3) rejects
    have "leaked (ext_uuid x) (next_tid s) (step URL s (Request req x))"
      by (rule leaked_after_failed_get)
    from leaked_steps [OF this rest]
    have "leaked (ext_uuid x) (next_tid s) (steps URL init_state (evs @ Request req x # evs'))"
      by (simp add: steps_append assms(4))
    then show ?thesis by (simp add: leaked_def)
  qed
  from order failed kept show ?thesis by blast
qed

theorem failed_connect_leaks_legacy_session_witness:
  "onRequest sampleURL (ext_of ''S1'' False True) sse_get init_state =
     ([NewSSETransport 0 ''S1'', SseSet ''S1'' 0, Connect (SSERef 0) False], Rejected ConnectFailed)
   \<and> map_of (sseSessions (steps sampleURL init_state
        [Request sse_get (ext_of ''S1'' False True), ResClose 0,
         Request sse_get (ext_of ''S2'' True True), ResClose 1])) ''S1'' = Some 0"
proof -
  have u: "sampleURL (''http://localhost'' @ req_url sse_get)
      = Some \<lparr>pathname = ''/sse'', searchParams = []\<rparr>"
    "prefix ''/sse'' (pathname \<lparr>pathname = ''/sse'', searchParams = []\<rparr>)"
    "req_method sse_get = ''GET''"
    by (simp_all add: sample_defs)
  have s: "init_state = steps sampleURL init_state []"
    by simp
  have f: "fresh_events sampleURL init_state
      ([] @ Request sse_get (ext_of ''S1'' False True)
        # [ResClose 0, Request sse_get (ext_of ''S2'' True True), ResClose 1])"
    by (simp add: sample_defs handler_defs run_defs machine_defs sse_ids_def)
  have x: "\<not> ext_connect (ext_of ''S1'' False True)" "ext_uuid (ext_of ''S1'' False True) = ''S1''"
    "next_tid init_state = 0"
    by (simp_all add: sample_defs)
  from failed_connect_leaks_legacy_session [OF u s f] x show ?thesis
    by simp
qed

text \<open>
  Claim C5 at the input where the code departs from it: the connect of a legacy GET
  rejects, then the response closes. The session is still registered, and a POST for its
  identifier is not answered as an unknown session by 404: the handler writes no
  response itself and hands the request to \<open>handlePostMessage\<close> of the transport of the
  closed connection, which rejects.
\<close>

theorem legacy_close_after_failed_connect:
  "map_of (sseSessions (steps sampleURL init_state
      [Request sse_get (ext_of ''S1'' False True), ResClose 0])) ''S1'' = Some 0
   \<and> onRequest sampleURL ext_no_stream sse_post_S1
       (steps sampleURL init_state [Request sse_get (ext_of ''S1'' False True), ResClose 0])
      = ([HandlePostMessage 0], Rejected PostMessageFailed)
   \<and> ended (response_of (fst (onRequest sampleURL ext_no_stream sse_post_S1
       (steps sampleURL init_state [Request sse_get (ext_of ''S1'' False True), ResClose 0]))))
      = None"
  by (simp add: sample_defs handler_defs run_defs machine_defs)

text \<open>With a connect that resolves, the same close ends the session: the POST gets 404.\<close>

lemma legacy_close_after_connect:
  "map_of (sseSessions (steps sampleURL init_state
      [Request sse_get (ext_of ''S1'' True True), ResClose 0])) ''S1'' = None
   \<and> response_of (fst (onRequest sampleURL ext_sample sse_post_S1
       (steps sampleURL init_state [Request sse_get (ext_of ''S1'' True True), ResClose 0])))
      = \<lparr>statusCode = 404, headers = [], ended = Some (Text ''Session not found'')\<rparr>"
  by (simp add: sample_defs handler_defs run_defs machine_defs)

subsection \<open>The sizes of the registries\<close>

text \<open>
  A \<open>Map\<close> holds a key once. The registries of a running listener are made by \<open>set\<close> and
  \<open>delete\<close> from empty ones, so their lists have no key twice, and the counts of the health
  object are the numbers of registered identifiers.
\<close>

lemma distinct_keys_step:
  assumes "distinct (map fst (sseSessions s))" and "distinct (map fst (streamableSessions s))"
  shows "distinct (map fst (sseSessions (step URL s e)))
    \<and> distinct (map fst (streamableSessions (step URL s e)))"
proof (cases rule: event_effects_cases [of URL s e])
  case inert
  with assms show ?thesis by (simp add: step_def run_inert)
next
  case (legacy_open req x)
  with assms show ?thesis
    by (simp add: step_def run_effects_def distinct_update)
next
  case (header_new req x h)
  with assms show ?thesis
    by (simp add: step_def run_effects_def upd_streamable_def distinct_update distinct_delete)
next
  case (header_closed req x h t obj sid)
  with assms show ?thesis
    by (simp add: step_def run_effects_def distinct_delete)
next
  case (post_new req x)
  with assms show ?thesis
    by (simp add: step_def run_effects_def upd_streamable_def distinct_update)
next
  case (legacy_closed t obj)
  with assms show ?thesis
    by (simp add: step_def run_effects_def distinct_delete)
next
  case (streamable_closed t obj sid)
  with assms show ?thesis
    by (simp add: step_def run_effects_def distinct_delete)
qed

lemma distinct_keys_steps:
  "distinct (map fst (sseSessions s)) \<Longrightarrow> distinct (map fst (streamableSessions s))
   \<Longrightarrow> distinct (map fst (sseSessions (steps URL s evs)))
     \<and> distinct (map fst (streamableSessions (steps URL s evs)))"
proof (induction evs arbitrary: s)
  case Nil
  then show ?case by simp
next
  case (Cons e evs)
  from distinct_keys_step [OF Cons.prems, of URL e] Cons.IH [of "step URL s e"]
  show ?case by simp
qed

lemma length_distinct_keys:
  "distinct (map fst al) \<Longrightarrow> length al = card (dom (map_of al))"
  by (simp add: dom_map_of_conv_image_fst distinct_card flip: set_map)

lemma health_counts_running:
  assumes "s = steps URL init_state evs"
  shows "sse (sessions (healthData p s)) = card (dom (map_of (sseSessions s)))
    \<and> streamable (sessions (healthData p s)) = card (dom (map_of (streamableSessions s)))"
proof -
  have "distinct (map fst (sseSessions init_state))"
    "distinct (map fst (streamableSessions init_state))"
    by (simp_all add: init_state_def)
  from distinct_keys_steps [OF this, of URL evs] assms show ?thesis
    by (simp add: healthData_def length_distinct_keys)
qed

end
